theory Spec2Isabelle
  imports Main "HOL-Library.Sublist" "HOL-Library.Multiset" "HOL-Library.List_Lexorder"
begin

text \<open>
  The package resolution of \<open>obshell-sdk-go\<close> (\<open>util/mirrors.go\<close>): fetching the
  metadata of a mirror, filtering and ranking its package records, and searching and
  downloading over the list of mirrors. The functions of the source are embedded as
  functions of the same names; the network, the file system and the libraries they call
  are arguments of the model.
\<close>

section \<open>Data model of \<open>util/mirrors.go\<close>\<close>

text \<open>
  The Go structs become records with the fields of the source, in the source's order.
  Go strings are byte strings: \<^typ>\<open>string\<close>. Go's \<open>int\<close> fields carry no arithmetic
  here and are \<^typ>\<open>int\<close>. Several structs share field names, so a field is written with
  its record's name in front (\<open>PackageEntry.Name\<close>, \<open>packageInfo.Name\<close>).
\<close>

record xml_Name =
  Space :: string
  Local :: string

record Location =
  BaseUrl :: string
  Href :: string

record repoData =
  Type :: string
  Location :: Location
  Timestamp :: int
  Size :: int
  OpenSize :: int
  DatabaseVersion :: int

record repoMD =
  XMLName :: xml_Name
  Revision :: string
  Data :: "repoData list"

record packageVersion =
  Epoch :: string
  Version :: string
  Release :: string

record packageTime =
  File :: string
  Build :: string

record packageSize =
  Package :: string
  Installed :: string
  Archive :: string

record packageHeaderRange =
  Start :: int
  End :: int

record PackageEntry =
  Name :: string
  Flags :: string
  Epoch :: string
  Version :: string
  Release :: string

record packageIncludeFile =
  Type :: string
  Path :: string

record packageFormat =
  License :: string
  Vendor :: string
  Group :: string
  BuildHost :: string
  SourceRPM :: string
  HeaderRange :: packageHeaderRange
  Provides :: "PackageEntry list"
  Requires :: "PackageEntry list"
  Files :: "packageIncludeFile list"

record packageInfo =
  XMLName :: xml_Name
  Name :: string
  Arch :: string
  Version :: packageVersion
  Packager :: string
  URL :: string
  Time :: packageTime
  Size :: packageSize
  Location :: Location
  Format :: packageFormat

record primaryData =
  Packages :: "packageInfo list"

record Mirror =
  name :: string
  url :: string
  arch :: string
  nonLse :: bool

definition REMOTE_REPOMD_FILE :: string where
  "REMOTE_REPOMD_FILE = ''/repodata/repomd.xml''"

definition PRIMARY_REPOMD_TYPE :: string where
  "PRIMARY_REPOMD_TYPE = ''primary''"

definition AARCH64 :: string where
  "AARCH64 = ''aarch64''"

definition NONLSE :: string where
  "NONLSE = ''nonlse''"

section \<open>Errors, panics and effects\<close>

text \<open>
  A Go function of result type \<open>(T, error)\<close> returns a value, returns an error, or
  panics. An \<open>error\<close> is a value: \<open>Errorf\<close> carries the message of an error this file
  builds with \<open>fmt.Errorf\<close>; \<open>NotExist\<close> is an error of the operating system for which
  \<open>os.IsNotExist\<close> holds; \<open>Foreign\<close> is any other error handed back by a library
  (transport, URL, gzip, XML, file system). A panic is not an error value and is kept
  apart from it.
\<close>

datatype error = Errorf string | NotExist string | Foreign string

datatype panic = IndexOutOfRange | NilDereference

datatype failure = Error error | Panic panic

text \<open>
  Every effect on the outside world is appended to a log, in the order in which the code
  performs it. A function that has effects takes the log and returns it extended.
\<close>

datatype event =
  HttpGet string
  | OsStat string
  | OsMkdirAll string
  | WriteFile string string

type_synonym world = "event list"

record FileInfo =
  IsDir :: bool

text \<open>
  The collaborators the file calls and does not define. The answer of an effectful one
  may depend on everything that has happened so far (its first argument).
  \<^item> \<open>url_JoinPath\<close>, \<open>filepath_Base\<close>, \<open>filepath_Join\<close>: Go's pure path functions;
  \<^item> \<open>resty_Get\<close>: the body of the response to a GET, or the transport error;
  \<^item> \<open>xml_Unmarshal_repoMD\<close>: what \<open>xml.Unmarshal(body, &repo)\<close> leaves in the
    pointer \<open>repo\<close> (\<open>None\<close> is Go's \<open>nil\<close>) and the error it returns;
  \<^item> \<open>gzip_NewReader\<close>: the error of \<open>gzip.NewReader\<close> on the body, if any;
  \<^item> \<open>xml_Decode_primaryData\<close>: what decoding the gzip stream leaves in \<open>packages\<close>
    and the error it returns;
  \<^item> \<open>os_Stat\<close>: both results of \<open>os.Stat\<close>, the file info (\<open>None\<close> is \<open>nil\<close>) and
    the error;
  \<^item> \<open>os_MkdirAll\<close>, \<open>writeFileLocal\<close>: the error, if any;
  \<^item> \<open>CmpVersionString\<close>: the version comparison of \<open>internal/util\<close>;
  \<^item> \<open>pdqsort_func\<close>: what \<open>sort.Slice\<close> makes of a slice of more than 12 records
    under a given closure (Go's pattern-defeating quicksort). Nothing is assumed of it.
\<close>

record env =
  url_JoinPath :: "string \<Rightarrow> string \<Rightarrow> error + string"
  filepath_Base :: "string \<Rightarrow> string"
  filepath_Join :: "string \<Rightarrow> string \<Rightarrow> string"
  resty_Get :: "world \<Rightarrow> string \<Rightarrow> error + string"
  xml_Unmarshal_repoMD :: "string \<Rightarrow> repoMD option \<times> error option"
  gzip_NewReader :: "string \<Rightarrow> error option"
  xml_Decode_primaryData :: "string \<Rightarrow> primaryData \<times> error option"
  os_Stat :: "world \<Rightarrow> string \<Rightarrow> FileInfo option \<times> error option"
  os_MkdirAll :: "world \<Rightarrow> string \<Rightarrow> error option"
  writeFileLocal :: "world \<Rightarrow> string \<Rightarrow> string \<Rightarrow> error option"
  CmpVersionString :: "string \<Rightarrow> string \<Rightarrow> int"
  pdqsort_func :: "(packageInfo \<Rightarrow> packageInfo \<Rightarrow> bool) \<Rightarrow> packageInfo list \<Rightarrow> packageInfo list"

section \<open>Library functions on strings, paths and slices\<close>

text \<open>
  \<open>strings.Index(s, substr)\<close>: the index of the first occurrence of \<open>substr\<close> in
  \<open>s\<close>, or \<open>-1\<close> when there is none.
\<close>

fun index_at :: "string \<Rightarrow> string \<Rightarrow> int \<Rightarrow> int" where
  "index_at substr [] i = (if substr = [] then i else - 1)"
| "index_at substr (c # s) i =
     (if prefix substr (c # s) then i else index_at substr s (i + 1))"

definition strings_Index :: "string \<Rightarrow> string \<Rightarrow> int" where
  "strings_Index s substr = index_at substr s 0"

text \<open>
  \<open>strings.Split(s, sep)\<close> for a separator of one byte, the only way the file calls it
  (\<open>"."\<close>): the pieces of \<open>s\<close> between the separators. The result always has a first
  element, so the \<open>[0]\<close> the source applies to it never panics.
\<close>

fun strings_Split :: "string \<Rightarrow> char \<Rightarrow> string list" where
  "strings_Split [] sep = [[]]"
| "strings_Split (c # s) sep =
     (if c = sep then [] # strings_Split s sep
      else (c # hd (strings_Split s sep)) # tl (strings_Split s sep))"

text \<open>\<open>filepath.IsAbs\<close> on Unix: the path begins with a slash.\<close>

definition filepath_IsAbs :: "string \<Rightarrow> bool" where
  "filepath_IsAbs path = prefix ''/'' path"

text \<open>\<open>os.IsNotExist(err)\<close>; it is false of \<open>nil\<close>.\<close>

fun os_IsNotExist :: "error option \<Rightarrow> bool" where
  "os_IsNotExist (Some (NotExist _)) = True"
| "os_IsNotExist _ = False"

text \<open>
  Go's insertion sort (\<open>insertionSort_func\<close>): for \<open>i\<close> from 1 upwards, element \<open>i\<close>
  is swapped with its left neighbour as long as \<open>less(j, j - 1)\<close> holds. \<open>sift lt x rs\<close>
  is the inner loop: \<open>rs\<close> is the part to the left of \<open>x\<close>, nearest neighbour first.
\<close>

fun sift :: "('a \<Rightarrow> 'a \<Rightarrow> bool) \<Rightarrow> 'a \<Rightarrow> 'a list \<Rightarrow> 'a list" where
  "sift lt x [] = [x]"
| "sift lt x (r # rs) = (if lt x r then r # sift lt x rs else x # r # rs)"

definition insertionSort_func :: "('a \<Rightarrow> 'a \<Rightarrow> bool) \<Rightarrow> 'a list \<Rightarrow> 'a list" where
  "insertionSort_func lt xs = rev (foldl (\<lambda>rs x. sift lt x rs) [] xs)"

text \<open>
  \<open>sort.Slice\<close> (Go 1.19 and later) runs the insertion sort on a slice of at most 12
  elements and the quicksort on a longer one.
\<close>

definition sort_Slice :: "env \<Rightarrow> (packageInfo \<Rightarrow> packageInfo \<Rightarrow> bool) \<Rightarrow> packageInfo list \<Rightarrow> packageInfo list" where
  "sort_Slice env lt xs =
     (if length xs \<le> 12 then insertionSort_func lt xs else pdqsort_func env lt xs)"

section \<open>Fetching the repository metadata\<close>

definition getRepomdUrl :: "env \<Rightarrow> Mirror \<Rightarrow> error + string" where
  "getRepomdUrl env m = url_JoinPath env (url m) REMOTE_REPOMD_FILE"

text \<open>
  \<open>getRepoMD\<close> returns the pointer \<open>repo\<close> as \<open>xml.Unmarshal\<close> left it, and the error of
  the GET, which is \<open>nil\<close> on this path: the error of \<open>xml.Unmarshal\<close> is not read.
\<close>

definition getRepoMD :: "env \<Rightarrow> Mirror \<Rightarrow> world \<Rightarrow> (failure + repoMD option) \<times> world" where
  "getRepoMD env m w =
     (case getRepomdUrl env m of
        Inl err \<Rightarrow> (Inl (Error err), w)
      | Inr u \<Rightarrow>
          (case resty_Get env w u of
             Inl err \<Rightarrow> (Inl (Error err), w @ [HttpGet u])
           | Inr body \<Rightarrow> (Inr (fst (xml_Unmarshal_repoMD env body)), w @ [HttpGet u])))"

definition getLocalUrl :: "env \<Rightarrow> Mirror \<Rightarrow> Location \<Rightarrow> error + string" where
  "getLocalUrl env m location =
     (if BaseUrl location \<noteq> [] then url_JoinPath env (BaseUrl location) (Href location)
      else url_JoinPath env (url m) (Href location))"

text \<open>The loop of \<open>getRepoPrimaryUrl\<close> over \<open>repo.Data\<close>.\<close>

fun primary_loop :: "env \<Rightarrow> Mirror \<Rightarrow> repoData list \<Rightarrow> error + string" where
  "primary_loop env m [] = Inl (Errorf ''primary repomd not found'')"
| "primary_loop env m (d # ds) =
     (if repoData.Type d = PRIMARY_REPOMD_TYPE then getLocalUrl env m (repoData.Location d)
      else primary_loop env m ds)"

fun lift_error :: "error + 'a \<Rightarrow> failure + 'a" where
  "lift_error (Inl err) = Inl (Error err)"
| "lift_error (Inr v) = Inr v"

definition getRepoPrimaryUrl :: "env \<Rightarrow> Mirror \<Rightarrow> world \<Rightarrow> (failure + string) \<times> world" where
  "getRepoPrimaryUrl env m w =
     (case getRepoMD env m w of
        (Inl f, w') \<Rightarrow> (Inl f, w')
      | (Inr None, w') \<Rightarrow> (Inl (Panic NilDereference), w')
      | (Inr (Some repo), w') \<Rightarrow> (lift_error (primary_loop env m (repoMD.Data repo)), w'))"

text \<open>
  \<open>getRepoPrimary\<close> returns \<open>&packages\<close> together with the error of the decoder; its only
  caller drops the value when the error is not \<open>nil\<close>, so the model returns one or the
  other.
\<close>

definition getRepoPrimary :: "env \<Rightarrow> Mirror \<Rightarrow> world \<Rightarrow> (failure + primaryData) \<times> world" where
  "getRepoPrimary env m w =
     (case getRepoPrimaryUrl env m w of
        (Inl f, w') \<Rightarrow> (Inl f, w')
      | (Inr u, w') \<Rightarrow>
          (case resty_Get env w' u of
             Inl err \<Rightarrow> (Inl (Error err), w' @ [HttpGet u])
           | Inr body \<Rightarrow>
               (case gzip_NewReader env body of
                  Some err \<Rightarrow> (Inl (Error err), w' @ [HttpGet u])
                | None \<Rightarrow>
                    (case xml_Decode_primaryData env body of
                       (packages, Some err) \<Rightarrow> (Inl (Error err), w' @ [HttpGet u])
                     | (packages, None) \<Rightarrow> (Inr packages, w' @ [HttpGet u])))))"

section \<open>Filtering and ranking\<close>

text \<open>
  The closure handed to \<open>sort.Slice\<close> in \<open>sortPackages\<close>. The source's closure takes two
  indices and reads \<open>packages[i]\<close> and \<open>packages[j]\<close>; here it takes the two records.
\<close>

definition leading_segment :: "packageInfo \<Rightarrow> string" where
  "leading_segment p = hd (strings_Split (packageVersion.Release (packageInfo.Version p)) (CHR ''.''))"

definition sortPackages_less :: "env \<Rightarrow> Mirror \<Rightarrow> packageInfo \<Rightarrow> packageInfo \<Rightarrow> bool" where
  "sortPackages_less env m p q =
     (let val = CmpVersionString env (packageVersion.Epoch (packageInfo.Version p))
                  (packageVersion.Epoch (packageInfo.Version q)) in
      if val \<noteq> 0 then val > 0 else
      let val = CmpVersionString env (packageVersion.Version (packageInfo.Version p))
                  (packageVersion.Version (packageInfo.Version q)) in
      if val \<noteq> 0 then val > 0 else
      let val = CmpVersionString env (leading_segment p) (leading_segment q) in
      if val \<noteq> 0 then val > 0 else
      if nonLse m then
        strings_Index (packageVersion.Release (packageInfo.Version p)) NONLSE
          > strings_Index (packageVersion.Release (packageInfo.Version q)) NONLSE
      else if arch m = AARCH64 then
        strings_Index (packageVersion.Release (packageInfo.Version p)) NONLSE
          < strings_Index (packageVersion.Release (packageInfo.Version q)) NONLSE
      else True)"

definition sortPackages :: "env \<Rightarrow> Mirror \<Rightarrow> packageInfo list \<Rightarrow> packageInfo list" where
  "sortPackages env m packages = sort_Slice env (sortPackages_less env m) packages"

text \<open>
  The first test of the loop body of \<open>search\<close>: \<open>Inr True\<close> is \<open>continue\<close>. Go evaluates
  \<open>pkg.Format.Provides[0]\<close> only when \<open>entry.Flags\<close> is not empty, and panics when the
  slice is empty.
\<close>

definition flags_differ :: "PackageEntry \<Rightarrow> packageInfo \<Rightarrow> panic + bool" where
  "flags_differ entry pkg =
     (if PackageEntry.Flags entry \<noteq> [] then
        (case Provides (Format pkg) of
           [] \<Rightarrow> Inl IndexOutOfRange
         | p0 # _ \<Rightarrow> Inr (PackageEntry.Flags entry \<noteq> PackageEntry.Flags p0))
      else Inr False)"

text \<open>The loop of \<open>search\<close> over \<open>packages.Packages\<close>, with \<open>match\<close> as accumulator.\<close>

fun search_loop :: "PackageEntry \<Rightarrow> packageInfo list \<Rightarrow> packageInfo list \<Rightarrow> panic + packageInfo list" where
  "search_loop entry [] match = Inr match"
| "search_loop entry (pkg # pkgs) match =
     (if packageInfo.Name pkg = PackageEntry.Name entry then
        (case flags_differ entry pkg of
           Inl p \<Rightarrow> Inl p
         | Inr True \<Rightarrow> search_loop entry pkgs match
         | Inr False \<Rightarrow>
             if PackageEntry.Epoch entry \<noteq> []
                \<and> PackageEntry.Epoch entry \<noteq> packageVersion.Epoch (packageInfo.Version pkg)
             then search_loop entry pkgs match
             else if PackageEntry.Version entry \<noteq> []
                \<and> PackageEntry.Version entry \<noteq> packageVersion.Version (packageInfo.Version pkg)
             then search_loop entry pkgs match
             else if PackageEntry.Release entry \<noteq> []
                \<and> PackageEntry.Release entry \<noteq> packageVersion.Release (packageInfo.Version pkg)
             then search_loop entry pkgs match
             else search_loop entry pkgs (match @ [pkg]))
      else search_loop entry pkgs match)"

definition search :: "env \<Rightarrow> Mirror \<Rightarrow> PackageEntry \<Rightarrow> world \<Rightarrow> (failure + packageInfo list) \<times> world" where
  "search env m entry w =
     (if PackageEntry.Name entry = [] then (Inl (Error (Errorf ''package name is empty'')), w)
      else
        (case getRepoPrimary env m w of
           (Inl f, w') \<Rightarrow> (Inl f, w')
         | (Inr packages, w') \<Rightarrow>
             (case search_loop entry (Packages packages) [] of
                Inl p \<Rightarrow> (Inl (Panic p), w')
              | Inr match \<Rightarrow> (Inr (sortPackages env m match), w'))))"

section \<open>Search and download on one mirror\<close>

definition no_such_package :: "PackageEntry \<Rightarrow> error" where
  "no_such_package entry =
     Errorf (''no such package: '' @ PackageEntry.Name entry @ ''-''
       @ PackageEntry.Version entry @ ''-'' @ PackageEntry.Release entry)"

definition Search :: "env \<Rightarrow> Mirror \<Rightarrow> PackageEntry \<Rightarrow> world \<Rightarrow> (failure + packageInfo list) \<times> world" where
  "Search env m entry w =
     (case search env m entry w of
        (Inl f, w') \<Rightarrow> (Inl f, w')
      | (Inr match, w') \<Rightarrow>
          if length match = 0 then (Inl (Error (no_such_package entry)), w')
          else (Inr match, w'))"

text \<open>
  The part of \<open>downloadPackage\<close> after the test of the destination: the GET of the
  artifact and the write of the file.
\<close>

definition fetch_artifact :: "env \<Rightarrow> Mirror \<Rightarrow> packageInfo \<Rightarrow> string \<Rightarrow> world \<Rightarrow> (failure + string) \<times> world" where
  "fetch_artifact env m pkg destDir w =
     (case getLocalUrl env m (packageInfo.Location pkg) of
        Inl err \<Rightarrow> (Inl (Error err), w)
      | Inr u \<Rightarrow>
          (case resty_Get env w u of
             Inl err \<Rightarrow> (Inl (Error err), w @ [HttpGet u])
           | Inr body \<Rightarrow>
               (let dest = filepath_Join env destDir
                             (filepath_Base env (Href (packageInfo.Location pkg)));
                    w' = w @ [HttpGet u]
                in case writeFileLocal env w' body dest of
                     Some err \<Rightarrow> (Inl (Error err), w' @ [WriteFile dest body])
                   | None \<Rightarrow> (Inr dest, w' @ [WriteFile dest body]))))"

text \<open>
  \<open>downloadPackage\<close>. The chain after \<open>os.Stat\<close> is the source's: first
  \<open>os.IsNotExist(err)\<close>, then \<open>!stat.IsDir()\<close>, which dereferences \<open>stat\<close>, then
  \<open>err != nil\<close>.
\<close>

definition downloadPackage :: "env \<Rightarrow> Mirror \<Rightarrow> packageInfo \<Rightarrow> string \<Rightarrow> world \<Rightarrow> (failure + string) \<times> world" where
  "downloadPackage env m pkg destDir w =
     (if \<not> filepath_IsAbs destDir then
        (Inl (Error (Errorf (''destination is not an absolute path: '' @ destDir))), w)
      else
        (case os_Stat env w destDir of
           (stat, err) \<Rightarrow>
             (let w1 = w @ [OsStat destDir] in
              if os_IsNotExist err then
                (case os_MkdirAll env w1 destDir of
                   Some e \<Rightarrow> (Inl (Error e), w1 @ [OsMkdirAll destDir])
                 | None \<Rightarrow> fetch_artifact env m pkg destDir (w1 @ [OsMkdirAll destDir]))
              else
                (case stat of
                   None \<Rightarrow> (Inl (Panic NilDereference), w1)
                 | Some info \<Rightarrow>
                     if \<not> IsDir info then
                       (Inl (Error (Errorf (''destination is not a directory: '' @ destDir))), w1)
                     else
                       (case err of
                          Some e \<Rightarrow> (Inl (Error e), w1)
                        | None \<Rightarrow> fetch_artifact env m pkg destDir w1)))))"

definition Download :: "env \<Rightarrow> Mirror \<Rightarrow> string \<Rightarrow> PackageEntry \<Rightarrow> world \<Rightarrow> (failure + string) \<times> world" where
  "Download env m destDir entry w =
     (case Search env m entry w of
        (Inl f, w') \<Rightarrow> (Inl f, w')
      | (Inr packages, w') \<Rightarrow>
          (case packages of
             [] \<Rightarrow> (Inl (Panic IndexOutOfRange), w')
           | p0 # _ \<Rightarrow> downloadPackage env m p0 destDir w'))"

section \<open>Search and download over the list of mirrors\<close>

text \<open>
  \<open>OB_MIRRORS\<close> is a package variable that \<open>init\<close> fills from the host; the two
  functions that range over it take it as the argument \<open>mirrors\<close>.
\<close>

fun DownloadPackage :: "env \<Rightarrow> Mirror list \<Rightarrow> string \<Rightarrow> PackageEntry \<Rightarrow> world \<Rightarrow> (failure + string) \<times> world" where
  "DownloadPackage env [] destDir entry w = (Inl (Error (no_such_package entry)), w)"
| "DownloadPackage env (mirror # mirrors) destDir entry w =
     (case search env mirror entry w of
        (Inl f, w') \<Rightarrow> (Inl f, w')
      | (Inr packages, w') \<Rightarrow>
          if length packages > 0 then downloadPackage env mirror (hd packages) destDir w'
          else DownloadPackage env mirrors destDir entry w')"

fun SearchPackage :: "env \<Rightarrow> Mirror list \<Rightarrow> PackageEntry \<Rightarrow> world \<Rightarrow> (failure + packageInfo list) \<times> world" where
  "SearchPackage env [] entry w = (Inl (Error (no_such_package entry)), w)"
| "SearchPackage env (mirror # mirrors) entry w =
     (case search env mirror entry w of
        (Inl f, w') \<Rightarrow> (Inl f, w')
      | (Inr packages, w') \<Rightarrow>
          if length packages > 0 then (Inr packages, w')
          else SearchPackage env mirrors entry w')"

section \<open>The properties under study\<close>

text \<open>
  \<open>spec_keeps\<close> follows the words of the specification, not the code: a record is kept
  when its name is the query's and each of flag, epoch, version and release of the query
  is empty or equal to the record's; the flag is compared with the flag of the first
  entry of the record's provides list.
\<close>

definition spec_keeps :: "PackageEntry \<Rightarrow> packageInfo \<Rightarrow> bool" where
  "spec_keeps entry pkg =
     (packageInfo.Name pkg = PackageEntry.Name entry
      \<and> (PackageEntry.Flags entry = []
           \<or> (case Provides (Format pkg) of
                 [] \<Rightarrow> False
               | p0 # _ \<Rightarrow> PackageEntry.Flags entry = PackageEntry.Flags p0))
      \<and> (PackageEntry.Epoch entry = []
           \<or> PackageEntry.Epoch entry = packageVersion.Epoch (packageInfo.Version pkg))
      \<and> (PackageEntry.Version entry = []
           \<or> PackageEntry.Version entry = packageVersion.Version (packageInfo.Version pkg))
      \<and> (PackageEntry.Release entry = []
           \<or> PackageEntry.Release entry = packageVersion.Release (packageInfo.Version pkg)))"

text \<open>
  \<open>provides_present entry pkgs\<close>: the loop of \<open>search\<close> never reads the first provides
  entry of a record that has none.
\<close>

definition provides_present :: "PackageEntry \<Rightarrow> packageInfo list \<Rightarrow> bool" where
  "provides_present entry pkgs =
     (PackageEntry.Flags entry = []
      \<or> list_all (\<lambda>pkg. packageInfo.Name pkg \<noteq> PackageEntry.Name entry
                      \<or> Provides (Format pkg) \<noteq> []) pkgs)"











text \<open>
  \<open>visit_empty env mirrors entry w\<close>: the mirrors are searched in list order from the
  world \<open>w\<close>; when each of them returns no match and no error, the world reached.
\<close>

fun visit_empty :: "env \<Rightarrow> Mirror list \<Rightarrow> PackageEntry \<Rightarrow> world \<Rightarrow> world option" where
  "visit_empty env [] entry w = Some w"
| "visit_empty env (mirror # mirrors) entry w =
     (case search env mirror entry w of
        (Inr [], w') \<Rightarrow> visit_empty env mirrors entry w'
      | _ \<Rightarrow> None)"

section \<open>Sample data\<close>

text \<open>
  Modelled from the spec: \<open>CmpVersionString\<close> of \<open>internal/util\<close> is not among the
  sources. The specification (4.1) describes it: the strings are split into segments at
  the characters that are not alphanumeric; the segments are compared pair by pair, as
  numbers when both are all digits and as strings otherwise; the first pair that differs
  decides; empty strings compare equal. When one string runs out of segments first, the
  model takes the longer one as the greater. The theorems below are stated for every
  comparison; this one is used where a concrete one is needed.
\<close>

definition is_digit :: "char \<Rightarrow> bool" where
  "is_digit c = (48 \<le> (of_char c :: nat) \<and> (of_char c :: nat) \<le> 57)"

definition is_alnum :: "char \<Rightarrow> bool" where
  "is_alnum c =
     (is_digit c \<or> (65 \<le> (of_char c :: nat) \<and> (of_char c :: nat) \<le> 90)
      \<or> (97 \<le> (of_char c :: nat) \<and> (of_char c :: nat) \<le> 122))"

fun segments :: "string \<Rightarrow> string list" where
  "segments [] = [[]]"
| "segments (c # s) =
     (if is_alnum c then (c # hd (segments s)) # tl (segments s) else [] # segments s)"

definition all_digits :: "string \<Rightarrow> bool" where
  "all_digits seg = (seg \<noteq> [] \<and> list_all is_digit seg)"

definition digits_value :: "string \<Rightarrow> nat" where
  "digits_value seg = foldl (\<lambda>n c. 10 * n + (of_char c - 48)) 0 seg"

definition cmp_segment :: "string \<Rightarrow> string \<Rightarrow> int" where
  "cmp_segment a b =
     (if all_digits a \<and> all_digits b then
        (if digits_value a < digits_value b then - 1
         else if digits_value b < digits_value a then 1 else 0)
      else
        (if (map of_char a :: nat list) < map of_char b then - 1
         else if (map of_char b :: nat list) < map of_char a then 1 else 0))"

fun cmp_segments :: "string list \<Rightarrow> string list \<Rightarrow> int" where
  "cmp_segments [] [] = 0"
| "cmp_segments [] (b # bs) = - 1"
| "cmp_segments (a # ar) [] = 1"
| "cmp_segments (a # ar) (b # bs) =
     (if cmp_segment a b \<noteq> 0 then cmp_segment a b else cmp_segments ar bs)"

definition CmpVersionString_model :: "string \<Rightarrow> string \<Rightarrow> int" where
  "CmpVersionString_model a b = cmp_segments (segments a) (segments b)"

text \<open>
  Sample records. The decoder of the index leaves \<open>Format.Provides\<close> empty in every
  record (the struct tag \<open>rpm:provides>rpm:entry\<close> matches no element), so the records
  of the sample index have no provides entry.
\<close>

definition pkg_of :: "string \<Rightarrow> string \<Rightarrow> string \<Rightarrow> string \<Rightarrow> PackageEntry list \<Rightarrow> packageInfo" where
  "pkg_of n e v r provides =
     \<lparr> packageInfo.XMLName = \<lparr> Space = [], Local = ''package'' \<rparr>,
       packageInfo.Name = n,
       Arch = ''x86_64'',
       packageInfo.Version = \<lparr> packageVersion.Epoch = e, packageVersion.Version = v,
                               packageVersion.Release = r \<rparr>,
       Packager = [],
       URL = [],
       Time = \<lparr> File = [], Build = [] \<rparr>,
       packageInfo.Size = \<lparr> Package = [], Installed = [], Archive = [] \<rparr>,
       packageInfo.Location = \<lparr> BaseUrl = [], Href = ''/'' @ n @ ''-'' @ v @ ''.rpm'' \<rparr>,
       Format = \<lparr> License = [], Vendor = [], Group = [], BuildHost = [], SourceRPM = [],
                  HeaderRange = \<lparr> Start = 0, End = 0 \<rparr>,
                  Provides = provides, Requires = [], Files = [] \<rparr> \<rparr>"

text \<open>A provides entry, for records as the struct declares them.\<close>

definition provides_of :: "string \<Rightarrow> string \<Rightarrow> PackageEntry" where
  "provides_of n f =
     \<lparr> PackageEntry.Name = n, Flags = f, PackageEntry.Epoch = [],
       PackageEntry.Version = [], PackageEntry.Release = [] \<rparr>"

definition query_of :: "string \<Rightarrow> string \<Rightarrow> string \<Rightarrow> PackageEntry" where
  "query_of n f v =
     \<lparr> PackageEntry.Name = n, Flags = f, PackageEntry.Epoch = [],
       PackageEntry.Version = v, PackageEntry.Release = [] \<rparr>"

definition stable_packages :: "packageInfo list" where
  "stable_packages =
     [pkg_of ''obshell'' ''0'' ''4.2.0'' ''1.el7'' [],
      pkg_of ''obshell'' ''0'' ''4.2.1'' ''1.el7'' [],
      pkg_of ''obshell'' ''0'' ''4.1.9'' ''1.el7'' [],
      pkg_of ''obproxy'' ''0'' ''4.2.1'' ''1.el7'' []]"

definition devkit_packages :: "packageInfo list" where
  "devkit_packages =
     [pkg_of ''obd'' ''0'' ''2.9.0'' ''1.el7'' [],
      pkg_of ''obd'' ''0'' ''2.10.0'' ''1.el7'' []]"

definition sample_repoMD :: repoMD where
  "sample_repoMD =
     \<lparr> repoMD.XMLName = \<lparr> Space = [], Local = ''repomd'' \<rparr>,
       Revision = ''1'',
       repoMD.Data =
         [\<lparr> repoData.Type = ''other'',
            repoData.Location = \<lparr> BaseUrl = [], Href = ''/repodata/other.xml.gz'' \<rparr>,
            Timestamp = 0, repoData.Size = 0, OpenSize = 0, DatabaseVersion = 0 \<rparr>,
          \<lparr> repoData.Type = ''primary'',
            repoData.Location = \<lparr> BaseUrl = [], Href = ''/repodata/primary.xml.gz'' \<rparr>,
            Timestamp = 0, repoData.Size = 0, OpenSize = 0, DatabaseVersion = 0 \<rparr>] \<rparr>"

text \<open>
  A world in which every request succeeds. The body of a response is represented by the
  URL of the request; the mirror \<open>http://stable\<close> serves \<open>stable_packages\<close>, every other
  one \<open>devkit_packages\<close>. The destination of a download is an existing directory.
  No list of the sample data is longer than 12, so the stand-in for the quicksort is
  never run.
\<close>

definition sample_env :: env where
  "sample_env =
     \<lparr> url_JoinPath = (\<lambda>base elem. Inr (base @ elem)),
       filepath_Base = (\<lambda>path. tl path),
       filepath_Join = (\<lambda>dir file. dir @ ''/'' @ file),
       resty_Get = (\<lambda>w u. Inr u),
       xml_Unmarshal_repoMD = (\<lambda>body. (Some sample_repoMD, None)),
       gzip_NewReader = (\<lambda>body. None),
       xml_Decode_primaryData =
         (\<lambda>body. (if body = ''http://stable/repodata/primary.xml.gz''
                   then \<lparr> Packages = stable_packages \<rparr>
                   else \<lparr> Packages = devkit_packages \<rparr>, None)),
       os_Stat = (\<lambda>w path. (Some \<lparr> IsDir = True \<rparr>, None)),
       os_MkdirAll = (\<lambda>w path. None),
       writeFileLocal = (\<lambda>w body dest. None),
       CmpVersionString = CmpVersionString_model,
       pdqsort_func = insertionSort_func \<rparr>"

definition stable_mirror :: Mirror where
  "stable_mirror = \<lparr> name = ''stable'', url = ''http://stable'', arch = ''x86_64'', nonLse = False \<rparr>"

definition devkit_mirror :: Mirror where
  "devkit_mirror = \<lparr> name = ''devkit'', url = ''http://devkit'', arch = ''x86_64'', nonLse = False \<rparr>"

text \<open>The log of a successful fetch of the index of \<open>stable_mirror\<close>.\<close>

definition stable_world :: world where
  "stable_world =
     [HttpGet ''http://stable/repodata/repomd.xml'',
      HttpGet ''http://stable/repodata/primary.xml.gz'']"

text \<open>The same world, except that \<open>os.Stat\<close> fails with an error other than not-exist.\<close>

definition stat_denied_env :: env where
  "stat_denied_env =
     sample_env \<lparr> os_Stat := (\<lambda>w path. (None, Some (Foreign ''permission denied''))) \<rparr>"

text \<open>The same world, except that no request to \<open>http://stable\<close> gets through.\<close>

definition stable_down_env :: env where
  "stable_down_env =
     sample_env \<lparr> resty_Get :=
       (\<lambda>w u. if prefix ''http://stable'' u then Inl (Foreign ''connection refused'') else Inr u) \<rparr>"

text \<open>What a successful fetch of the index of \<open>devkit_mirror\<close> adds to the log.\<close>

definition devkit_world :: world where
  "devkit_world =
     [HttpGet ''http://devkit/repodata/repomd.xml'',
      HttpGet ''http://devkit/repodata/primary.xml.gz'']"

text \<open>
  Two worlds in which the descriptor does not parse. In the first the body has no
  start tag: \<open>xml.Unmarshal\<close> returns an error and leaves \<open>repo\<close> at \<open>nil\<close>. In the
  second the body breaks off after the entries of \<open>sample_repoMD\<close>: \<open>xml.Unmarshal\<close>
  returns an error and leaves in \<open>repo\<close> what it had decoded.
\<close>

definition empty_descriptor_env :: env where
  "empty_descriptor_env =
     sample_env \<lparr> xml_Unmarshal_repoMD := (\<lambda>body. (None, Some (Foreign ''EOF''))) \<rparr>"

definition truncated_descriptor_env :: env where
  "truncated_descriptor_env =
     sample_env \<lparr> xml_Unmarshal_repoMD :=
       (\<lambda>body. (Some sample_repoMD, Some (Foreign ''XML syntax error: unexpected EOF''))) \<rparr>"







section \<open>Facts about the library functions and the sample data\<close>

lemma strings_Split_not_Nil: "strings_Split s sep \<noteq> []"
  by (induction s) auto


lemma getRepoPrimary_stable:
  "getRepoPrimary sample_env stable_mirror [] = (Inr \<lparr> Packages = stable_packages \<rparr>, stable_world)"
  by code_simp

section \<open>The empty package name\<close>

text \<open>
  Claim C8. A query whose name is the empty string is refused with the error
  \<open>package name is empty\<close> by \<open>search\<close>, and so by \<open>Search\<close>, \<open>Download\<close> and, when
  there is a mirror in the list, by \<open>SearchPackage\<close> and \<open>DownloadPackage\<close>. The world is
  returned as it was: nothing has been fetched.
\<close>

theorem empty_name_rejected:
  assumes "PackageEntry.Name entry = []"
  shows "search env m entry w = (Inl (Error (Errorf ''package name is empty'')), w)
       \<and> Search env m entry w = (Inl (Error (Errorf ''package name is empty'')), w)
       \<and> Download env m destDir entry w = (Inl (Error (Errorf ''package name is empty'')), w)
       \<and> SearchPackage env (mirror # mirrors) entry w
           = (Inl (Error (Errorf ''package name is empty'')), w)
       \<and> DownloadPackage env (mirror # mirrors) destDir entry w
           = (Inl (Error (Errorf ''package name is empty'')), w)"
  using assms by (simp add: Search_def search_def Download_def)

theorem empty_name_rejected_witness:
  "PackageEntry.Name (query_of [] [] ''4.2.1'') = []
   \<and> search sample_env stable_mirror (query_of [] [] ''4.2.1'') []
       = (Inl (Error (Errorf ''package name is empty'')), [])
   \<and> DownloadPackage sample_env [stable_mirror, devkit_mirror] ''/tmp'' (query_of [] [] ''4.2.1'') []
       = (Inl (Error (Errorf ''package name is empty'')), [])"
proof -
  have h: "PackageEntry.Name (query_of [] [] ''4.2.1'') = []"
    by (simp add: query_of_def)
  show ?thesis
    using h empty_name_rejected [OF h, of sample_env stable_mirror "[]" "''/tmp''"
        stable_mirror "[devkit_mirror]"]
    by simp
qed

section \<open>The panic of the flag test\<close>

lemma search_loop_panics:
  assumes "pkg \<in> set pkgs" "packageInfo.Name pkg = PackageEntry.Name entry"
    "Provides (Format pkg) = []" "PackageEntry.Flags entry \<noteq> []"
  shows "search_loop entry pkgs match = Inl IndexOutOfRange"
  using assms
proof (induction pkgs arbitrary: match)
  case Nil
  then show ?case by simp
next
  case (Cons a pkgs)
  show ?case
  proof (cases "a = pkg")
    case True
    with Cons.prems show ?thesis by (simp add: flags_differ_def)
  next
    case False
    with Cons.prems have "pkg \<in> set pkgs" by simp
    then have IH: "\<And>match. search_loop entry pkgs match = Inl IndexOutOfRange"
      using Cons.IH Cons.prems by blast
    show ?thesis
      by (simp add: IH flags_differ_def split: sum.splits list.splits bool.splits)
  qed
qed

text \<open>
  Claim C9. \<open>search\<close> is partial: when the flag of the query is not empty and the index
  holds a record of the query's name whose provides list is empty, the loop reads
  element 0 of that empty list and the call panics with an index out of range. No list
  and no error is returned.
\<close>

theorem search_index_out_of_range:
  assumes "PackageEntry.Name entry \<noteq> []"
    and "PackageEntry.Flags entry \<noteq> []"
    and "getRepoPrimary env m w = (Inr packages, w')"
    and "pkg \<in> set (Packages packages)"
    and "packageInfo.Name pkg = PackageEntry.Name entry"
    and "Provides (Format pkg) = []"
  shows "search env m entry w = (Inl (Panic IndexOutOfRange), w')"
  using assms search_loop_panics [of pkg "Packages packages" entry "[]"]
  by (simp add: search_def)

theorem search_index_out_of_range_witness:
  "pkg_of ''obproxy'' ''0'' ''4.2.1'' ''1.el7'' [] \<in> set stable_packages
   \<and> search sample_env stable_mirror (query_of ''obproxy'' ''EQ'' []) []
       = (Inl (Panic IndexOutOfRange), stable_world)"
proof -
  have mem: "pkg_of ''obproxy'' ''0'' ''4.2.1'' ''1.el7'' [] \<in> set (Packages \<lparr> Packages = stable_packages \<rparr>)"
    by (simp add: stable_packages_def)
  have "search sample_env stable_mirror (query_of ''obproxy'' ''EQ'' []) []
      = (Inl (Panic IndexOutOfRange), stable_world)"
    by (rule search_index_out_of_range [OF _ _ getRepoPrimary_stable mem])
      (simp_all add: query_of_def pkg_of_def)
  with mem show ?thesis by simp
qed

section \<open>The test of the destination directory\<close>

text \<open>
  Claim C10. In \<open>downloadPackage\<close>, when \<open>os.Stat\<close> fails with an error other than
  not-exist, its file info is \<open>nil\<close> and \<open>stat.IsDir()\<close> is evaluated before the error is
  looked at: the call panics with a nil dereference. The error of \<open>os.Stat\<close> is returned
  only when the file info is not \<open>nil\<close>, which \<open>os.Stat\<close> never pairs with an error.
\<close>

theorem downloadPackage_stat_error_panics:
  assumes "filepath_IsAbs destDir"
    and "os_Stat env w destDir = (stat, Some e)"
    and "\<not> os_IsNotExist (Some e)"
  shows "(stat = None \<longrightarrow>
            downloadPackage env m pkg destDir w
              = (Inl (Panic NilDereference), w @ [OsStat destDir]))
       \<and> (fst (downloadPackage env m pkg destDir w) = Inl (Error e) \<longrightarrow> stat \<noteq> None)"
  using assms by (cases stat) (simp_all add: downloadPackage_def)

theorem downloadPackage_stat_error_panics_witness:
  "filepath_IsAbs ''/data/rpms''
   \<and> os_Stat stat_denied_env stable_world ''/data/rpms'' = (None, Some (Foreign ''permission denied''))
   \<and> downloadPackage stat_denied_env stable_mirror (hd stable_packages) ''/data/rpms'' stable_world
       = (Inl (Panic NilDereference), stable_world @ [OsStat ''/data/rpms''])"
proof -
  have abs: "filepath_IsAbs ''/data/rpms''"
    by (simp add: filepath_IsAbs_def)
  have st: "os_Stat stat_denied_env stable_world ''/data/rpms''
      = (None, Some (Foreign ''permission denied''))"
    by (simp add: stat_denied_env_def)
  have ne: "\<not> os_IsNotExist (Some (Foreign ''permission denied''))"
    by simp
  show ?thesis
    using abs st downloadPackage_stat_error_panics [OF abs st ne, of stable_mirror "hd stable_packages"]
    by simp
qed

section \<open>Search on one mirror never returns an empty list\<close>

text \<open>
  Claim C5. When the filter and the ranking of \<open>search\<close> give the empty list and no
  error, \<open>Search\<close> returns the error \<open>no such package: name-version-release\<close>. So a list
  that \<open>Search\<close> returns is not empty, it is the list of \<open>search\<close>, and \<open>Download\<close>
  hands its element 0 to \<open>downloadPackage\<close>.
\<close>

theorem Search_never_empty:
  "(search env m entry w = (Inr [], w') \<longrightarrow>
      Search env m entry w
        = (Inl (Error (Errorf (''no such package: '' @ PackageEntry.Name entry @ ''-''
             @ PackageEntry.Version entry @ ''-'' @ PackageEntry.Release entry))), w'))
   \<and> (Search env m entry w = (Inr packages, w') \<longrightarrow>
        packages \<noteq> [] \<and> search env m entry w = (Inr packages, w')
        \<and> Download env m destDir entry w = downloadPackage env m (packages ! 0) destDir w')"
  by (auto simp: Search_def Download_def no_such_package_def
        split: prod.splits sum.splits if_splits list.splits)

theorem Search_never_empty_witness:
  "search sample_env stable_mirror (query_of ''zlib'' [] ''1.0'') [] = (Inr [], stable_world)
   \<and> Search sample_env stable_mirror (query_of ''zlib'' [] ''1.0'') []
       = (Inl (Error (Errorf ''no such package: zlib-1.0-'')), stable_world)"
proof -
  have s: "search sample_env stable_mirror (query_of ''zlib'' [] ''1.0'') [] = (Inr [], stable_world)"
    by code_simp
  show ?thesis
    using s Search_never_empty [of sample_env stable_mirror "query_of ''zlib'' [] ''1.0''" "[]"
        stable_world "[]" "[]"]
    by (simp add: query_of_def)
qed

section \<open>The order of the mirrors\<close>

lemma visit_empty_Cons_Some:
  "visit_empty env (m # ms) entry w = Some w1 \<Longrightarrow>
   \<exists>w'. search env m entry w = (Inr [], w') \<and> visit_empty env ms entry w' = Some w1"
  by (auto split: prod.splits sum.splits list.splits)

lemma SearchPackage_skip:
  "visit_empty env pre entry w = Some w1 \<Longrightarrow>
   SearchPackage env (pre @ rest) entry w = SearchPackage env rest entry w1"
proof (induction pre arbitrary: w)
  case Nil
  then show ?case by simp
next
  case (Cons m pre)
  from visit_empty_Cons_Some [OF Cons.prems] obtain w'
    where s: "search env m entry w = (Inr [], w')" and v: "visit_empty env pre entry w' = Some w1"
    by blast
  show ?case
    using Cons.IH [OF v] s by simp
qed

lemma DownloadPackage_skip:
  "visit_empty env pre entry w = Some w1 \<Longrightarrow>
   DownloadPackage env (pre @ rest) destDir entry w = DownloadPackage env rest destDir entry w1"
proof (induction pre arbitrary: w)
  case Nil
  then show ?case by simp
next
  case (Cons m pre)
  from visit_empty_Cons_Some [OF Cons.prems] obtain w'
    where s: "search env m entry w = (Inr [], w')" and v: "visit_empty env pre entry w' = Some w1"
    by blast
  show ?case
    using Cons.IH [OF v] s by simp
qed

lemma visit_empty_None:
  "visit_empty env mirrors entry w = None \<Longrightarrow>
   \<exists>pre m post w1 r w2.
      mirrors = pre @ m # post \<and> visit_empty env pre entry w = Some w1
    \<and> search env m entry w1 = (r, w2) \<and> r \<noteq> Inr []"
proof (induction mirrors arbitrary: w)
  case Nil
  then show ?case by simp
next
  case (Cons m mirrors)
  obtain r w' where s: "search env m entry w = (r, w')"
    by (cases "search env m entry w") auto
  show ?case
  proof (cases "r = Inr []")
    case True
    with s Cons.prems have "visit_empty env mirrors entry w' = None"
      by simp
    from Cons.IH [OF this] obtain pre m' post w1 r' w2
      where *: "mirrors = pre @ m' # post" "visit_empty env pre entry w' = Some w1"
        "search env m' entry w1 = (r', w2)" "r' \<noteq> Inr []"
      by blast
    have "m # mirrors = (m # pre) @ m' # post"
      using *(1) by simp
    moreover have "visit_empty env (m # pre) entry w = Some w1"
      using s True *(2) by simp
    ultimately show ?thesis
      using *(3,4) by blast
  next
    case False
    have "m # mirrors = [] @ m # mirrors" by simp
    moreover have "visit_empty env [] entry w = Some w" by simp
    ultimately show ?thesis
      using s False by blast
  qed
qed

lemma SearchPackage_decisive:
  assumes "search env m entry w = (r, w')" "r \<noteq> Inr []"
  shows "SearchPackage env (m # post) entry w = (r, w')"
  using assms by (cases r) auto

text \<open>
  Claim C4. \<open>SearchPackage\<close> and \<open>DownloadPackage\<close> go through the mirrors in list
  order. As long as the mirrors searched so far (\<open>pre\<close>) each return no match and no
  error, the call carries on with the rest of the list. If the next mirror's \<open>search\<close>
  fails, the call returns that failure and the world as that mirror left it, whatever
  mirrors follow (\<open>post\<close>): none of them is consulted. If it returns a list that is not
  empty, \<open>SearchPackage\<close> returns that list and \<open>DownloadPackage\<close> downloads its
  element 0 from that mirror. When every mirror returns no match and no error, the call
  returns the error \<open>no such package\<close>; and when that is not the case, the call returns
  what the first mirror that fails or matches returns.
\<close>

theorem mirrors_in_order:
  "(visit_empty env pre entry w = Some w1 \<longrightarrow>
      SearchPackage env (pre @ rest) entry w = SearchPackage env rest entry w1
    \<and> DownloadPackage env (pre @ rest) destDir entry w = DownloadPackage env rest destDir entry w1
    \<and> (search env m entry w1 = (Inl f, w2) \<longrightarrow>
          SearchPackage env (pre @ m # post) entry w = (Inl f, w2)
        \<and> DownloadPackage env (pre @ m # post) destDir entry w = (Inl f, w2))
    \<and> (search env m entry w1 = (Inr packages, w2) \<and> packages \<noteq> [] \<longrightarrow>
          SearchPackage env (pre @ m # post) entry w = (Inr packages, w2)
        \<and> DownloadPackage env (pre @ m # post) destDir entry w
            = downloadPackage env m (packages ! 0) destDir w2)
    \<and> SearchPackage env pre entry w = (Inl (Error (no_such_package entry)), w1)
    \<and> DownloadPackage env pre destDir entry w = (Inl (Error (no_such_package entry)), w1))
   \<and> (visit_empty env mirrors entry w = None \<longrightarrow>
        (\<exists>before mirror after w3 r w4.
           mirrors = before @ mirror # after
         \<and> visit_empty env before entry w = Some w3
         \<and> search env mirror entry w3 = (r, w4) \<and> r \<noteq> Inr []
         \<and> SearchPackage env mirrors entry w = (r, w4)))"
proof (intro conjI impI)
  assume v: "visit_empty env pre entry w = Some w1"
  show "SearchPackage env (pre @ rest) entry w = SearchPackage env rest entry w1"
    by (rule SearchPackage_skip [OF v])
  show "DownloadPackage env (pre @ rest) destDir entry w = DownloadPackage env rest destDir entry w1"
    by (rule DownloadPackage_skip [OF v])
  show "SearchPackage env pre entry w = (Inl (Error (no_such_package entry)), w1)"
    using SearchPackage_skip [OF v, of "[]"] by simp
  show "DownloadPackage env pre destDir entry w = (Inl (Error (no_such_package entry)), w1)"
    using DownloadPackage_skip [OF v, of "[]"] by simp
next
  assume v: "visit_empty env pre entry w = Some w1"
    and s: "search env m entry w1 = (Inl f, w2)"
  show "SearchPackage env (pre @ m # post) entry w = (Inl f, w2)"
    using SearchPackage_skip [OF v, of "m # post"] s by simp
  show "DownloadPackage env (pre @ m # post) destDir entry w = (Inl f, w2)"
    using DownloadPackage_skip [OF v, of "m # post"] s by simp
next
  assume v: "visit_empty env pre entry w = Some w1"
    and s: "search env m entry w1 = (Inr packages, w2) \<and> packages \<noteq> []"
  show "SearchPackage env (pre @ m # post) entry w = (Inr packages, w2)"
    using SearchPackage_skip [OF v, of "m # post"] s by simp
  show "DownloadPackage env (pre @ m # post) destDir entry w
      = downloadPackage env m (packages ! 0) destDir w2"
    using DownloadPackage_skip [OF v, of "m # post"] s by (simp add: hd_conv_nth)
next
  assume n: "visit_empty env mirrors entry w = None"
  from visit_empty_None [OF n] obtain before mirror after w3 r w4
    where *: "mirrors = before @ mirror # after" "visit_empty env before entry w = Some w3"
      "search env mirror entry w3 = (r, w4)" "r \<noteq> Inr []"
    by blast
  have "SearchPackage env mirrors entry w = (r, w4)"
    using SearchPackage_skip [OF *(2), of "mirror # after"] SearchPackage_decisive [OF *(3,4)] *(1)
    by simp
  with * show "\<exists>before mirror after w3 r w4.
           mirrors = before @ mirror # after
         \<and> visit_empty env before entry w = Some w3
         \<and> search env mirror entry w3 = (r, w4) \<and> r \<noteq> Inr []
         \<and> SearchPackage env mirrors entry w = (r, w4)"
    by blast
qed

lemma search_stable_down:
  "search stable_down_env stable_mirror (query_of ''obd'' [] []) []
     = (Inl (Error (Foreign ''connection refused'')), [HttpGet ''http://stable/repodata/repomd.xml''])"
  by code_simp

lemma visit_stable_obd:
  "visit_empty sample_env [stable_mirror] (query_of ''obd'' [] []) [] = Some stable_world"
  by code_simp

lemma search_devkit_obd:
  "search sample_env devkit_mirror (query_of ''obd'' [] []) stable_world
     = (Inr (rev devkit_packages), stable_world @ devkit_world)"
  by code_simp

lemma visit_both_zlib:
  "visit_empty sample_env [stable_mirror, devkit_mirror] (query_of ''zlib'' [] []) []
     = Some (stable_world @ devkit_world)"
  by code_simp

theorem mirrors_in_order_witness:
  "SearchPackage stable_down_env [stable_mirror, devkit_mirror] (query_of ''obd'' [] []) []
     = (Inl (Error (Foreign ''connection refused'')), [HttpGet ''http://stable/repodata/repomd.xml''])
   \<and> SearchPackage sample_env [stable_mirror, devkit_mirror] (query_of ''obd'' [] []) []
       = (Inr (rev devkit_packages), stable_world @ devkit_world)
   \<and> SearchPackage sample_env [stable_mirror, devkit_mirror] (query_of ''zlib'' [] []) []
       = (Inl (Error (Errorf ''no such package: zlib--'')), stable_world @ devkit_world)"
proof -
  have ne: "rev devkit_packages \<noteq> []"
    by (simp add: devkit_packages_def)
  have a: "SearchPackage stable_down_env [stable_mirror, devkit_mirror] (query_of ''obd'' [] []) []
     = (Inl (Error (Foreign ''connection refused'')), [HttpGet ''http://stable/repodata/repomd.xml''])"
    using mirrors_in_order [of stable_down_env "[]" "query_of ''obd'' [] []" "[]" "[]" _ _
        stable_mirror "Error (Foreign ''connection refused'')"
        "[HttpGet ''http://stable/repodata/repomd.xml'']" "[devkit_mirror]"]
      search_stable_down
    by simp
  have b: "SearchPackage sample_env [stable_mirror, devkit_mirror] (query_of ''obd'' [] []) []
       = (Inr (rev devkit_packages), stable_world @ devkit_world)"
    using mirrors_in_order [of sample_env "[stable_mirror]" "query_of ''obd'' [] []" "[]"
        stable_world _ _ devkit_mirror _ "stable_world @ devkit_world" "[]" "rev devkit_packages"]
      visit_stable_obd search_devkit_obd ne
    by simp
  have c: "SearchPackage sample_env [stable_mirror, devkit_mirror] (query_of ''zlib'' [] []) []
       = (Inl (Error (Errorf ''no such package: zlib--'')), stable_world @ devkit_world)"
    using mirrors_in_order [of sample_env "[stable_mirror, devkit_mirror]" "query_of ''zlib'' [] []"
        "[]" "stable_world @ devkit_world"]
      visit_both_zlib
    by (simp add: no_such_package_def query_of_def)
  from a b c show ?thesis by simp
qed

section \<open>The destination of a download\<close>

text \<open>
  The claim as written, that \<open>Download\<close> fails before any network call, does not hold:
  with the destination \<open>relative/path\<close> the descriptor and the index are fetched before
  the error is returned.
\<close>

theorem Download_relative_counterexample:
  "\<not> filepath_IsAbs ''relative/path''
   \<and> Download sample_env stable_mirror ''relative/path'' (query_of ''obshell'' [] []) []
       = (Inl (Error (Errorf ''destination is not an absolute path: relative/path'')),
          [HttpGet ''http://stable/repodata/repomd.xml'',
           HttpGet ''http://stable/repodata/primary.xml.gz''])"
  by code_simp

lemma downloadPackage_relative:
  "\<not> filepath_IsAbs destDir \<Longrightarrow>
   downloadPackage env m pkg destDir w
     = (Inl (Error (Errorf (''destination is not an absolute path: '' @ destDir))), w)"
  by (simp add: downloadPackage_def)

text \<open>
  Claim C7, as the code has it. \<open>Download\<close> searches first and tests the destination
  afterwards, in \<open>downloadPackage\<close>. With a destination that is not an absolute path:
  a failure of \<open>Search\<close> is returned as it is; when \<open>Search\<close> returns a list, \<open>Download\<close>
  fails with \<open>destination is not an absolute path\<close> and the world is the one \<open>Search\<close>
  left, so the descriptor and the index have been fetched, and nothing else has happened:
  no artifact is fetched and no file is touched. \<open>downloadPackage\<close> itself fails before
  any effect.
\<close>

theorem Download_relative:
  assumes "\<not> filepath_IsAbs destDir"
  shows "(Search env m entry w = (Inl f, w') \<longrightarrow> Download env m destDir entry w = (Inl f, w'))
       \<and> (Search env m entry w = (Inr packages, w') \<longrightarrow>
            Download env m destDir entry w
              = (Inl (Error (Errorf (''destination is not an absolute path: '' @ destDir))), w'))
       \<and> downloadPackage env m pkg destDir w
            = (Inl (Error (Errorf (''destination is not an absolute path: '' @ destDir))), w)"
  using assms
  by (auto simp: Download_def downloadPackage_relative Search_def
        split: prod.splits sum.splits list.splits if_splits)

theorem Download_relative_witness:
  "\<not> filepath_IsAbs ''relative/path''
   \<and> Search sample_env stable_mirror (query_of ''obproxy'' [] []) []
       = (Inr [pkg_of ''obproxy'' ''0'' ''4.2.1'' ''1.el7'' []], stable_world)
   \<and> Download sample_env stable_mirror ''relative/path'' (query_of ''obproxy'' [] []) []
       = (Inl (Error (Errorf ''destination is not an absolute path: relative/path'')), stable_world)"
proof -
  have rel: "\<not> filepath_IsAbs ''relative/path''"
    by (simp add: filepath_IsAbs_def)
  have s: "Search sample_env stable_mirror (query_of ''obproxy'' [] []) []
       = (Inr [pkg_of ''obproxy'' ''0'' ''4.2.1'' ''1.el7'' []], stable_world)"
    by code_simp
  show ?thesis
    using rel s Download_relative [OF rel, of sample_env stable_mirror "query_of ''obproxy'' [] []" "[]"]
    by simp
qed

section \<open>Errors of the descriptor and of the index\<close>

lemma getRepoMD_drops_parse_error:
  assumes "getRepomdUrl env m = Inr u" and "resty_Get env w u = Inr body"
  shows "getRepoMD env m w = (Inr (fst (xml_Unmarshal_repoMD env body)), w @ [HttpGet u])"
  using assms by (simp add: getRepoMD_def)

lemma getRepoPrimary_returns_errors:
  assumes "getRepoPrimaryUrl env m w = (Inr u, w')"
  shows "(resty_Get env w' u = Inl err \<longrightarrow>
            getRepoPrimary env m w = (Inl (Error err), w' @ [HttpGet u]))
       \<and> (resty_Get env w' u = Inr body \<and> gzip_NewReader env body = Some err \<longrightarrow>
            getRepoPrimary env m w = (Inl (Error err), w' @ [HttpGet u]))
       \<and> (resty_Get env w' u = Inr body \<and> gzip_NewReader env body = None
            \<and> snd (xml_Decode_primaryData env body) = Some err \<longrightarrow>
            getRepoPrimary env m w = (Inl (Error err), w' @ [HttpGet u]))"
  using assms by (auto simp: getRepoPrimary_def split: prod.splits)

lemma search_returns_fetch_failure:
  assumes "PackageEntry.Name entry \<noteq> []" and "getRepoPrimary env m w = (Inl f, w')"
  shows "search env m entry w = (Inl f, w')"
  using assms by (simp add: search_def)

text \<open>
  Claim C6 asks that a descriptor that does not parse as XML gives an error to the
  caller. \<open>getRepoPrimary\<close> does return the errors of the transport, of gzip and of the
  XML decoder (\<open>getRepoPrimary_returns_errors\<close>), but \<open>getRepoMD\<close> does not read the
  error of \<open>xml.Unmarshal\<close>. Evaluated in the two worlds above: with a descriptor that
  has no start tag, \<open>getRepoMD\<close> returns a \<open>nil\<close> descriptor and no error, and \<open>search\<close>
  panics on \<open>repo.Data\<close>; with a descriptor that breaks off after its entries, \<open>search\<close>
  returns packages as if the descriptor had parsed.
\<close>

theorem descriptor_parse_error_lost:
  "xml_Unmarshal_repoMD empty_descriptor_env ''http://stable/repodata/repomd.xml''
     = (None, Some (Foreign ''EOF''))
   \<and> getRepoMD empty_descriptor_env stable_mirror []
       = (Inr None, [HttpGet ''http://stable/repodata/repomd.xml''])
   \<and> search empty_descriptor_env stable_mirror (query_of ''obshell'' [] []) []
       = (Inl (Panic NilDereference), [HttpGet ''http://stable/repodata/repomd.xml''])
   \<and> xml_Unmarshal_repoMD truncated_descriptor_env ''http://stable/repodata/repomd.xml''
       = (Some sample_repoMD, Some (Foreign ''XML syntax error: unexpected EOF''))
   \<and> getRepoMD truncated_descriptor_env stable_mirror []
       = (Inr (Some sample_repoMD), [HttpGet ''http://stable/repodata/repomd.xml''])
   \<and> fst (search truncated_descriptor_env stable_mirror (query_of ''obproxy'' [] []) [])
       = Inr [pkg_of ''obproxy'' ''0'' ''4.2.1'' ''1.el7'' []]"
  by code_simp

section \<open>The filter of \<open>search\<close>\<close>

lemma mset_sift: "mset (sift lt x rs) = add_mset x (mset rs)"
  by (induction rs) auto

lemma mset_foldl_sift: "mset (foldl (\<lambda>rs x. sift lt x rs) acc xs) = mset acc + mset xs"
  by (induction xs arbitrary: acc) (auto simp: mset_sift)

lemma mset_insertionSort_func: "mset (insertionSort_func lt xs) = mset xs"
  by (simp add: insertionSort_func_def mset_foldl_sift)

lemma mset_sortPackages:
  assumes "\<And>lt xs. mset (pdqsort_func env lt xs) = mset xs"
  shows "mset (sortPackages env m packages) = mset packages"
  using assms by (simp add: sortPackages_def sort_Slice_def mset_insertionSort_func)

lemma provides_present_Cons:
  "provides_present entry (pkg # pkgs) \<Longrightarrow> provides_present entry pkgs"
  by (auto simp: provides_present_def)

lemma search_loop_step:
  "provides_present entry (pkg # pkgs) \<Longrightarrow>
   search_loop entry (pkg # pkgs) match
     = search_loop entry pkgs (if spec_keeps entry pkg then match @ [pkg] else match)"
  by (auto simp: provides_present_def flags_differ_def spec_keeps_def split: list.splits bool.splits)

lemma search_loop_filter:
  "provides_present entry pkgs \<Longrightarrow>
   search_loop entry pkgs match = Inr (match @ filter (spec_keeps entry) pkgs)"
proof (induction pkgs arbitrary: match)
  case Nil
  then show ?case by simp
next
  case (Cons pkg pkgs)
  have IH: "\<And>match. search_loop entry pkgs match = Inr (match @ filter (spec_keeps entry) pkgs)"
    using Cons.IH provides_present_Cons [OF Cons.prems] by blast
  show ?case
    unfolding search_loop_step [OF Cons.prems] IH by simp
qed

text \<open>
  Where the flag of the query is empty, or every record of the query's name has a
  provides entry, the loop of \<open>search\<close> is the filter of the specification: the list
  returned holds the records that \<open>spec_keeps\<close> accepts, each as often as the index
  holds it (the quicksort taken to permute its argument).
\<close>

lemma search_filters_where_defined:
  assumes "PackageEntry.Name entry \<noteq> []"
    and "getRepoPrimary env m w = (Inr packages, w')"
    and "provides_present entry (Packages packages)"
    and "\<And>lt xs. mset (pdqsort_func env lt xs) = mset xs"
  shows "\<exists>result.
           search env m entry w = (Inr result, w')
         \<and> mset result = mset (filter (spec_keeps entry) (Packages packages))"
  using assms by (simp add: search_def search_loop_filter mset_sortPackages)

lemma spec_keeps_name_only:
  assumes "PackageEntry.Flags entry = []" "PackageEntry.Epoch entry = []"
    "PackageEntry.Version entry = []" "PackageEntry.Release entry = []"
  shows "spec_keeps entry pkg = (packageInfo.Name pkg = PackageEntry.Name entry)"
  using assms by (simp add: spec_keeps_def)

lemma spec_keeps_narrow:
  "PackageEntry.Version entry = [] \<Longrightarrow>
   spec_keeps (entry\<lparr>PackageEntry.Version := v\<rparr>) pkg \<Longrightarrow> spec_keeps entry pkg"
  by (auto simp: spec_keeps_def split: list.splits)

text \<open>
  Claim C1 asks that \<open>search\<close> keep a record exactly when \<open>spec_keeps\<close> accepts it.
  Where the loop reads no missing provides entry it does (\<open>search_filters_where_defined\<close>).
  But the loop reads element 0 of the provides list of every record of the query's name
  as soon as the flag of the query is set, and the records of an index have no provides
  entry. Evaluated on the sample index with the query \<open>obshell\<close> and the flag \<open>EQ\<close>: the
  filter of the specification keeps no record, so the list asked for is the empty one,
  and \<open>search\<close> panics. And were one record of the name to have a matching provides
  entry and another none, the filter would keep the first and the loop panics on the
  second.
\<close>

theorem search_flag_query_panics:
  "getRepoPrimary sample_env stable_mirror [] = (Inr \<lparr> Packages = stable_packages \<rparr>, stable_world)
   \<and> filter (spec_keeps (query_of ''obshell'' ''EQ'' [])) stable_packages = []
   \<and> search sample_env stable_mirror (query_of ''obshell'' ''EQ'' []) []
       = (Inl (Panic IndexOutOfRange), stable_world)
   \<and> spec_keeps (query_of ''obshell'' ''EQ'' [])
        (pkg_of ''obshell'' ''0'' ''4.2.1'' ''1.el7'' [provides_of ''obshell'' ''EQ''])
   \<and> search_loop (query_of ''obshell'' ''EQ'' [])
        [pkg_of ''obshell'' ''0'' ''4.2.1'' ''1.el7'' [provides_of ''obshell'' ''EQ''],
         pkg_of ''obshell'' ''0'' ''4.2.0'' ''1.el7'' []] []
       = Inl IndexOutOfRange"
  by code_simp

section \<open>The ranking\<close>


































end
